theory Spec2Isabelle
  imports Main
begin

section \<open>The world the scripts run in\<close>

text \<open>
  The two modules (\<^verbatim>\<open>csv_analysis_agent.py\<close> and \<^verbatim>\<open>main.py\<close>) compute nothing of
  their own: they touch the filesystem through \<^verbatim>\<open>pathlib\<close>, read one environment
  variable, print, and iterate over the message stream of the external \<^verbatim>\<open>query\<close> call.
  The model therefore starts with the pieces of the world those calls see.

  Scope of the world model: a POSIX tree of directories and regular files without symbolic
  links, permissions or special files; a regular file either decodes to a text (the string
  that \<^verbatim>\<open>read_text()\<close> hands back) or does not decode. A location in the tree is the list of
  its component names from the root.
\<close>

type_synonym path = "string list"

datatype file_data = Text string | Undecodable

datatype node = Directory | RegularFile file_data

type_synonym filesystem = "path \<Rightarrow> node option"

datatype exn =
    FileExistsError
  | FileNotFoundError
  | NotADirectoryError
  | IsADirectoryError
  | UnicodeDecodeError
  | ExternalException string
  | ExternalBaseException string

text \<open>
  \<^verbatim>\<open>except Exception\<close> in \<^verbatim>\<open>main_async\<close> catches every exception above except those the
  external call raises from outside the \<^verbatim>\<open>Exception\<close> hierarchy (cancellation, keyboard
  interrupt).
\<close>

fun is_Exception :: "exn \<Rightarrow> bool" where
  "is_Exception (ExternalBaseException _) = False"
| "is_Exception _ = True"

record world =
  cwd :: path
  fs :: filesystem
  environ :: "string \<Rightarrow> string option"

subsection \<open>Pure paths: \<^verbatim>\<open>Path(s)\<close>, \<^verbatim>\<open>.parent\<close>, \<^verbatim>\<open>str\<close>\<close>

text \<open>
  \<^verbatim>\<open>Path(s)\<close> splits \<^verbatim>\<open>s\<close> at slashes, drops empty and \<^verbatim>\<open>.\<close> components, keeps \<^verbatim>\<open>..\<close>,
  and is anchored at the root when \<^verbatim>\<open>s\<close> starts with a slash.
\<close>

record pure_path =
  anchored :: bool
  parts :: "string list"

fun split_on :: "char \<Rightarrow> string \<Rightarrow> string list" where
  "split_on d [] = [[]]"
| "split_on d (c # cs) =
     (if c = d then [] # split_on d cs
      else (case split_on d cs of
              [] \<Rightarrow> [[c]]
            | x # xs \<Rightarrow> (c # x) # xs))"

definition Path :: "string \<Rightarrow> pure_path" where
  "Path s =
     \<lparr>anchored = (case s of [] \<Rightarrow> False | c # _ \<Rightarrow> c = CHR ''/''),
      parts = filter (\<lambda>n. n \<noteq> [] \<and> n \<noteq> ''.'') (split_on (CHR ''/'') s)\<rparr>"

definition parent :: "pure_path \<Rightarrow> pure_path" where
  "parent p = p\<lparr>parts := butlast (parts p)\<rparr>"

fun join_parts :: "string list \<Rightarrow> string" where
  "join_parts [] = []"
| "join_parts [n] = n"
| "join_parts (n # ns) = n @ ''/'' @ join_parts ns"

definition str_abs :: "path \<Rightarrow> string" where
  "str_abs loc = ''/'' @ join_parts loc"


subsection \<open>Looking a path up\<close>

definition start :: "path \<Rightarrow> pure_path \<Rightarrow> path" where
  "start wd p = (if anchored p then [] else wd)"

text \<open>
  The kernel walks the components one by one: each one is looked up in a directory that
  must exist, and \<^verbatim>\<open>..\<close> steps to the parent (the root is its own parent).
\<close>

fun walk :: "filesystem \<Rightarrow> path \<Rightarrow> string list \<Rightarrow> exn + path" where
  "walk f cur [] = Inr cur"
| "walk f cur (n # ns) =
     (case f cur of
        None \<Rightarrow> Inl FileNotFoundError
      | Some (RegularFile _) \<Rightarrow> Inl NotADirectoryError
      | Some Directory \<Rightarrow> walk f (if n = ''..'' then butlast cur else cur @ [n]) ns)"

definition stat :: "filesystem \<Rightarrow> path \<Rightarrow> pure_path \<Rightarrow> exn + node" where
  "stat f wd p =
     (case walk f (start wd p) (parts p) of
        Inl e \<Rightarrow> Inl e
      | Inr loc \<Rightarrow> (case f loc of None \<Rightarrow> Inl FileNotFoundError | Some n \<Rightarrow> Inr n))"

text \<open>\<^verbatim>\<open>Path.exists()\<close> and \<^verbatim>\<open>Path.is_dir()\<close> answer False where \<^verbatim>\<open>stat\<close> fails.\<close>

definition exists :: "filesystem \<Rightarrow> path \<Rightarrow> pure_path \<Rightarrow> bool" where
  "exists f wd p = (case stat f wd p of Inl _ \<Rightarrow> False | Inr _ \<Rightarrow> True)"

definition is_dir :: "filesystem \<Rightarrow> path \<Rightarrow> pure_path \<Rightarrow> bool" where
  "is_dir f wd p = (case stat f wd p of Inr Directory \<Rightarrow> True | _ \<Rightarrow> False)"

definition read_text :: "filesystem \<Rightarrow> path \<Rightarrow> pure_path \<Rightarrow> exn + string" where
  "read_text f wd p =
     (case stat f wd p of
        Inl e \<Rightarrow> Inl e
      | Inr Directory \<Rightarrow> Inl IsADirectoryError
      | Inr (RegularFile Undecodable) \<Rightarrow> Inl UnicodeDecodeError
      | Inr (RegularFile (Text t)) \<Rightarrow> Inr t)"

subsection \<open>\<^verbatim>\<open>Path.resolve()\<close>\<close>

text \<open>
  Without symbolic links, non-strict resolution is lexical: it starts from the working
  directory unless the path is anchored, and every \<^verbatim>\<open>..\<close> removes the component before
  it. It does not ask whether anything exists.
\<close>

fun resolve_parts :: "path \<Rightarrow> string list \<Rightarrow> path" where
  "resolve_parts cur [] = cur"
| "resolve_parts cur (n # ns) =
     resolve_parts (if n = ''..'' then butlast cur else cur @ [n]) ns"

definition resolve :: "path \<Rightarrow> pure_path \<Rightarrow> path" where
  "resolve wd p = resolve_parts (start wd p) (parts p)"

subsection \<open>\<^verbatim>\<open>Path.mkdir(parents, exist_ok)\<close>\<close>

text \<open>
  \<^verbatim>\<open>os.mkdir\<close> creates one directory inside an existing one, and fails when the name is
  taken, when the directory above is missing, or when it is a regular file.
\<close>

definition os_mkdir :: "filesystem \<Rightarrow> path \<Rightarrow> pure_path \<Rightarrow> exn + filesystem" where
  "os_mkdir f wd p =
     (if parts p = [] then
        (case f (start wd p) of
           None \<Rightarrow> Inl FileNotFoundError
         | Some _ \<Rightarrow> Inl FileExistsError)
      else
        (case walk f (start wd p) (butlast (parts p)) of
           Inl e \<Rightarrow> Inl e
         | Inr d \<Rightarrow>
            (case f d of
               None \<Rightarrow> Inl FileNotFoundError
             | Some (RegularFile _) \<Rightarrow> Inl NotADirectoryError
             | Some Directory \<Rightarrow>
                 if last (parts p) = ''..'' \<or> f (d @ [last (parts p)]) \<noteq> None
                 then Inl FileExistsError
                 else Inr (f(d @ [last (parts p)] \<mapsto> Directory)))))"

text \<open>
  \<^verbatim>\<open>Path.mkdir\<close> as pathlib writes it: try \<^verbatim>\<open>os.mkdir\<close>; on \<^verbatim>\<open>FileNotFoundError\<close>, when
  \<^verbatim>\<open>parents\<close> is set and the path has a parent other than itself, make the parent (with
  \<^verbatim>\<open>parents=True, exist_ok=True\<close>) and try again without \<^verbatim>\<open>parents\<close>; on any other
  \<^verbatim>\<open>OSError\<close>, swallow it when \<^verbatim>\<open>exist_ok\<close> is set and the path is a directory. The
  filesystem is returned on failure too: ancestors made before the failure stay.
\<close>

function mkdir ::
  "bool \<Rightarrow> bool \<Rightarrow> filesystem \<Rightarrow> path \<Rightarrow> pure_path \<Rightarrow> exn option \<times> filesystem" where
  "mkdir parents exist_ok f wd p =
     (case os_mkdir f wd p of
        Inr f' \<Rightarrow> (None, f')
      | Inl e \<Rightarrow>
          if e = FileNotFoundError then
            (if \<not> parents \<or> parent p = p then (Some e, f)
             else (case mkdir True True f wd (parent p) of
                     (Some e', f') \<Rightarrow> (Some e', f')
                   | (None, f') \<Rightarrow> mkdir False exist_ok f' wd p))
          else if \<not> exist_ok \<or> \<not> is_dir f wd p then (Some e, f)
          else (None, f))"
  by pat_completeness auto

termination mkdir
proof (relation "measures [\<lambda>(parents, exist_ok, f, wd, p). length (parts p),
                           \<lambda>(parents, exist_ok, f, wd, p). if parents then 1 else 0]",
       goal_cases)
  case 1
  show ?case by simp
next
  case (2 parents exist_ok f wd p e)
  then have "parts p \<noteq> []"
    by (auto simp: parent_def)
  then show ?case
    by (simp add: parent_def)
next
  case 3
  then show ?case by simp
qed

declare mkdir.simps [simp del]

section \<open>The external agent\<close>

text \<open>
  \<^verbatim>\<open>query(prompt, options)\<close> belongs to the SDK, not to this repository. The code looks at a
  streamed item only through \<^verbatim>\<open>isinstance(message, Message)\<close>, \<^verbatim>\<open>hasattr(message, 'content')\<close>,
  whether the content is a list or a string, and \<^verbatim>\<open>hasattr(block, 'text')\<close>; an item is modelled
  by the answers to those questions.
\<close>

datatype block = TextBlock string | OtherBlock

datatype content_value = ContentList "block list" | ContentStr string | ContentOther

record message =
  is_Message :: bool
  content :: "content_value option"

record options =
  system_prompt :: string
  allowed_tools :: "string list"
  permission_mode :: string
  max_turns :: nat

text \<open>
  The agent works on the filesystem while its messages are consumed. One run of it is the
  finite sequence of items it delivers, each with the filesystem as it is at that moment,
  how the stream goes on after the last of them (it ends, it raises, or no further item ever
  arrives), and the filesystem at that point. The agent is a parameter of every function
  that calls \<^verbatim>\<open>query\<close>, and nothing is assumed about it.
\<close>

datatype stream_end = Completed | Raised exn | Stalled

record agent_run =
  items :: "(message \<times> filesystem) list"
  ending :: stream_end
  final_fs :: filesystem

type_synonym agent = "string \<Rightarrow> options \<Rightarrow> filesystem \<Rightarrow> agent_run"

section \<open>Runs\<close>

text \<open>
  A call ends by returning, by raising, or not at all. Besides its outcome it leaves the
  world behind and the sequence of effects it performed, in program order: what it
  printed, the filesystem calls it made, the call of \<^verbatim>\<open>query\<close> with its arguments, each item
  taken from the stream, and the end of the \<^verbatim>\<open>async for\<close> loop.
\<close>

datatype event =
    Print string
  | PrintFailure exn
  | PrintTraceback exn
  | EnvGet string
  | Mkdir pure_path
  | Resolve pure_path
  | QueryCall string options
  | Received message
  | Callback content_value
  | StreamEnd
  | Exists pure_path
  | ReadText pure_path

datatype 'a outcome = Returns 'a | Raises exn | Hangs

record 'a run =
  outcome :: "'a outcome"
  after :: world
  events :: "event list"

section \<open>\<^verbatim>\<open>csv_analysis_agent.py\<close>\<close>

definition unlines :: "string list \<Rightarrow> string" where
  "unlines ls = concat (map (\<lambda>l. l @ ''\<newline>'') ls)"

definition DATA_ANALYSIS_SYSTEM_PROMPT :: string where
  "DATA_ANALYSIS_SYSTEM_PROMPT = unlines
    [''You are an expert data analyst specializing in CSV data analysis.'',
     '''',
     ''When analyzing data, follow this iterative process:'',
     '''',
     ''## PHASE 1: DATA EXPLORATION'',
     ''1. Read the CSV file to understand its structure'',
     ''2. Check the shape (rows, columns)'',
     ''3. Examine column names and data types'',
     ''4. Identify any missing or null values'',
     ''5. Look at sample rows to understand the data'',
     '''',
     ''## PHASE 2: ANALYSIS'',
     ''Based on the user'' @ [CHR 0x27] @ ''s specific question:'',
     ''1. Write Python code using pandas to analyze the data'',
     ''2. Execute the code and observe the results'',
     ''3. If the results are incomplete or raise new questions, run additional analysis'',
     ''4. Continue iterating until you have comprehensive insights'',
     '''',
     ''## PHASE 3: SYNTHESIS'',
     ''1. Compile your findings into clear, actionable insights'',
     ''2. Answer the user'' @ [CHR 0x27] @ ''s question directly with supporting data'',
     ''3. Include relevant statistics and patterns discovered'',
     ''4. Write your final analysis to the output file'',
     '''',
     ''## GUIDELINES'',
     ''- Always use Python with pandas for data manipulation'',
     ''- Show your work by printing intermediate results'',
     ''- If you encounter errors, debug and retry'',
     ''- Be thorough but focused on the user'' @ [CHR 0x27] @ ''s question'',
     ''- Support all conclusions with actual data from the CSV'',
     ''- Save your final analysis report as plain text'']"

text \<open>The \<^verbatim>\<open>ClaudeCodeOptions(...)\<close> literal, the same in both functions.\<close>

definition agent_options :: options where
  "agent_options =
     \<lparr>system_prompt = DATA_ANALYSIS_SYSTEM_PROMPT,
      allowed_tools = [''Bash'', ''Read'', ''Write'', ''Glob'', ''Grep''],
      permission_mode = ''acceptEdits'',
      max_turns = 30\<rparr>"

text \<open>The f-string \<^verbatim>\<open>full_prompt\<close> of \<^verbatim>\<open>analyze_csv\<close>.\<close>

definition full_prompt :: "string \<Rightarrow> string \<Rightarrow> string \<Rightarrow> string" where
  "full_prompt csv_abs_path user_prompt output_abs_path = unlines
    ['''',
     ''Analyze the CSV file located at: '' @ csv_abs_path,
     '''',
     ''User'' @ [CHR 0x27] @ ''s Question/Request:'',
     user_prompt,
     '''',
     ''Instructions:'',
     ''1. Start by reading and exploring the CSV file structure using Python with pandas'',
     ''2. Use the Bash tool to run Python code for analysis'',
     ''3. Iterate as needed to fully answer the question'',
     ''4. Save your final analysis and conclusions to: '' @ output_abs_path,
     '''',
     ''Important: Use Python code execution via Bash to perform all data analysis.'',
     ''Example: python3 -c '' @ [CHR 0x22] @ ''import pandas as pd; df = pd.read_csv(''
       @ [CHR 0x27] @ csv_abs_path @ [CHR 0x27] @ ''); print(df.head())'' @ [CHR 0x22],
     '''',
     ''Begin your analysis now.'']"

text \<open>The f-string \<^verbatim>\<open>full_prompt\<close> of \<^verbatim>\<open>analyze_csv_streaming\<close>.\<close>

definition full_prompt_streaming :: "string \<Rightarrow> string \<Rightarrow> string \<Rightarrow> string" where
  "full_prompt_streaming csv_abs_path user_prompt output_abs_path = unlines
    ['''',
     ''Analyze the CSV file located at: '' @ csv_abs_path,
     '''',
     ''User'' @ [CHR 0x27] @ ''s Question/Request:'',
     user_prompt,
     '''',
     ''Save your final analysis to: '' @ output_abs_path,
     '''',
     ''Use Python with pandas for all data analysis operations.'']"

subsection \<open>The message loop of \<^verbatim>\<open>analyze_csv\<close>\<close>

text \<open>
  The body of the \<^verbatim>\<open>async for\<close>: for an item that is a \<^verbatim>\<open>Message\<close> with a content, and only
  when \<^verbatim>\<open>verbose\<close>, print the first 200 characters of every text block of a list content, or
  of a string content. The list \<^verbatim>\<open>result_messages\<close> the loop also fills is never read, and
  is left out.
\<close>

fun print_blocks :: "block list \<Rightarrow> event list" where
  "print_blocks [] = []"
| "print_blocks (TextBlock t # bs) =
     Print (''[Agent] '' @ take 200 t @ ''...'') # print_blocks bs"
| "print_blocks (OtherBlock # bs) = print_blocks bs"

definition show_message :: "bool \<Rightarrow> message \<Rightarrow> event list" where
  "show_message verbose m =
     (if is_Message m then
        (if verbose then
           (case content m of
              None \<Rightarrow> []
            | Some (ContentList bs) \<Rightarrow> print_blocks bs
            | Some (ContentStr s) \<Rightarrow> [Print (''[Agent] '' @ take 200 s @ ''...'')]
            | Some ContentOther \<Rightarrow> [])
         else [])
      else [])"

fun consume :: "bool \<Rightarrow> (message \<times> filesystem) list \<Rightarrow> event list" where
  "consume verbose [] = []"
| "consume verbose ((m, f) # rest) =
     Received m # show_message verbose m @ consume verbose rest"

subsection \<open>\<^verbatim>\<open>analyze_csv\<close>\<close>

definition analyze_csv ::
  "agent \<Rightarrow> world \<Rightarrow> string \<Rightarrow> string \<Rightarrow> string \<Rightarrow> bool \<Rightarrow> string run" where
  "analyze_csv query w csv_path user_prompt output_path verbose =
     (case mkdir True True (fs w) (cwd w) (parent (Path output_path)) of
        (Some e, fs1) \<Rightarrow>
          \<lparr>outcome = Raises e, after = w\<lparr>fs := fs1\<rparr>,
           events = [Mkdir (parent (Path output_path))]\<rparr>
      | (None, fs1) \<Rightarrow>
         (let csv_abs_path = str_abs (resolve (cwd w) (Path csv_path));
              output_abs_path = str_abs (resolve (cwd w) (Path output_path));
              prompt = full_prompt csv_abs_path user_prompt output_abs_path;
              r = query prompt agent_options fs1;
              w' = w\<lparr>fs := final_fs r\<rparr>;
              seen =
                [Mkdir (parent (Path output_path)), Resolve (Path csv_path),
                 Resolve (Path output_path)]
                @ (if verbose
                   then [Print (''[Agent] Starting analysis of: '' @ csv_path),
                         Print (''[Agent] User prompt: '' @ take 100 user_prompt @ ''...'')]
                   else [])
                @ [QueryCall prompt agent_options]
                @ consume verbose (items r)
          in case ending r of
               Raised e \<Rightarrow> \<lparr>outcome = Raises e, after = w', events = seen\<rparr>
             | Stalled \<Rightarrow> \<lparr>outcome = Hangs, after = w', events = seen\<rparr>
             | Completed \<Rightarrow>
                (let drained =
                       seen @ [StreamEnd]
                       @ (if verbose
                          then [Print ''[Agent] Analysis complete. Checking output file...'']
                          else [])
                       @ [Exists (Path output_path)]
                 in if exists (fs w') (cwd w') (Path output_path) then
                      (case read_text (fs w') (cwd w') (Path output_path) of
                         Inl e \<Rightarrow>
                           \<lparr>outcome = Raises e, after = w',
                            events = drained @ [ReadText (Path output_path)]\<rparr>
                       | Inr report_content \<Rightarrow>
                           \<lparr>outcome = Returns report_content, after = w',
                            events = drained @ [ReadText (Path output_path)]
                              @ (if verbose
                                 then [Print (''[Agent] Report saved to: '' @ output_path)]
                                 else [])\<rparr>)
                    else
                      \<lparr>outcome = Returns
                         ''Analysis completed but no report file was generated. Check agent output above.'',
                       after = w', events = drained\<rparr>)))"

subsection \<open>\<^verbatim>\<open>analyze_csv_streaming\<close>\<close>

text \<open>
  The caller's \<^verbatim>\<open>callback\<close> is \<^verbatim>\<open>None\<close> or a callable; a call of it returns or raises. The
  loop hands it the content of every item that is a \<^verbatim>\<open>Message\<close> with a content. When it
  raises, the loop is left at that item, with the filesystem as it is then.
\<close>

type_synonym callback = "(content_value \<Rightarrow> exn option) option"

fun relay ::
  "callback \<Rightarrow> (message \<times> filesystem) list \<Rightarrow> (exn \<times> filesystem) option \<times> event list" where
  "relay cb [] = (None, [])"
| "relay cb ((m, f) # rest) =
     (case (if is_Message m then cb else None) of
        None \<Rightarrow> (case relay cb rest of (x, es) \<Rightarrow> (x, Received m # es))
      | Some call \<Rightarrow>
         (case content m of
            None \<Rightarrow> (case relay cb rest of (x, es) \<Rightarrow> (x, Received m # es))
          | Some c \<Rightarrow>
             (case call c of
                Some e \<Rightarrow> (Some (e, f), [Received m, Callback c])
              | None \<Rightarrow>
                 (case relay cb rest of (x, es) \<Rightarrow> (x, Received m # Callback c # es)))))"

definition analyze_csv_streaming ::
  "agent \<Rightarrow> world \<Rightarrow> string \<Rightarrow> string \<Rightarrow> string \<Rightarrow> callback \<Rightarrow> string run" where
  "analyze_csv_streaming query w csv_path user_prompt output_path cb =
     (case mkdir True True (fs w) (cwd w) (parent (Path output_path)) of
        (Some e, fs1) \<Rightarrow>
          \<lparr>outcome = Raises e, after = w\<lparr>fs := fs1\<rparr>,
           events = [Mkdir (parent (Path output_path))]\<rparr>
      | (None, fs1) \<Rightarrow>
         (let csv_abs_path = str_abs (resolve (cwd w) (Path csv_path));
              output_abs_path = str_abs (resolve (cwd w) (Path output_path));
              prompt = full_prompt_streaming csv_abs_path user_prompt output_abs_path;
              r = query prompt agent_options fs1;
              w' = w\<lparr>fs := final_fs r\<rparr>;
              called =
                [Mkdir (parent (Path output_path)), Resolve (Path csv_path),
                 Resolve (Path output_path), QueryCall prompt agent_options]
          in case relay cb (items r) of
               (Some (e, f), es) \<Rightarrow>
                 \<lparr>outcome = Raises e, after = w\<lparr>fs := f\<rparr>, events = called @ es\<rparr>
             | (None, es) \<Rightarrow>
                (case ending r of
                   Raised e \<Rightarrow> \<lparr>outcome = Raises e, after = w', events = called @ es\<rparr>
                 | Stalled \<Rightarrow> \<lparr>outcome = Hangs, after = w', events = called @ es\<rparr>
                 | Completed \<Rightarrow>
                    (let drained = called @ es @ [StreamEnd, Exists (Path output_path)]
                     in if exists (fs w') (cwd w') (Path output_path) then
                          (case read_text (fs w') (cwd w') (Path output_path) of
                             Inl e \<Rightarrow>
                               \<lparr>outcome = Raises e, after = w',
                                events = drained @ [ReadText (Path output_path)]\<rparr>
                           | Inr report \<Rightarrow>
                               \<lparr>outcome = Returns report, after = w',
                                events = drained @ [ReadText (Path output_path)]\<rparr>)
                        else
                          \<lparr>outcome = Returns ''Analysis complete. Check the output file.'',
                           after = w', events = drained\<rparr>))))"

subsection \<open>\<^verbatim>\<open>run_analysis\<close>\<close>

text \<open>
  A coroutine is a computation that has not run yet: a function of the world it will start
  in. \<^verbatim>\<open>asyncio.run\<close>, called from synchronous code (where no event loop is running, the
  only place the library accepts the call), drives the coroutine to its end and hands on what
  it returned or raised. The module's \<^verbatim>\<open>__main__\<close> block, a command-line quick test around
  \<^verbatim>\<open>run_analysis\<close>, is not modelled.
\<close>

definition asyncio_run :: "(world \<Rightarrow> 'a run) \<Rightarrow> world \<Rightarrow> 'a run" where
  "asyncio_run coro w = coro w"


section \<open>\<^verbatim>\<open>main.py\<close>\<close>

text \<open>The module's configuration globals, which \<^verbatim>\<open>main\<close> may overwrite from the command line.\<close>

record config =
  CSV_FILE_PATH :: string
  USER_PROMPT :: string
  OUTPUT_PATH :: string

definition default_config :: config where
  "default_config =
     \<lparr>CSV_FILE_PATH = ''data/sample_sales.csv'',
      USER_PROMPT = unlines
        ['''',
         ''Analyze this sales data and provide:'',
         ''1. Summary statistics for all numeric columns'',
         ''2. Top 3 products by total revenue'',
         ''3. Daily revenue trends'',
         ''4. Any interesting patterns or insights you discover''],
      OUTPUT_PATH = ''output/analysis_report.txt''\<rparr>"

definition rule60 :: string where
  "rule60 = replicate 60 (CHR ''='')"

text \<open>\<^verbatim>\<open>os.environ.get\<close> gives \<^verbatim>\<open>None\<close> or a string; \<^verbatim>\<open>not\<close> of it holds for \<^verbatim>\<open>None\<close> and the empty string.\<close>

definition validate_environment :: "world \<Rightarrow> bool \<times> event list" where
  "validate_environment w =
     (if (case environ w ''ANTHROPIC_API_KEY'' of None \<Rightarrow> True | Some v \<Rightarrow> v = []) then
        (False,
         [EnvGet ''ANTHROPIC_API_KEY'',
          Print ''ERROR: ANTHROPIC_API_KEY environment variable not set.'',
          Print (''Please set it with: export ANTHROPIC_API_KEY='' @ [CHR 0x27]
                 @ ''your-api-key'' @ [CHR 0x27])])
      else (True, [EnvGet ''ANTHROPIC_API_KEY'']))"

definition validate_csv_path :: "world \<Rightarrow> string \<Rightarrow> bool \<times> event list" where
  "validate_csv_path w csv_path =
     (if \<not> exists (fs w) (cwd w) (Path csv_path) then
        (False,
         [Exists (Path csv_path),
          Print (''ERROR: CSV file not found at: '' @ csv_path),
          Print ''Please ensure the file exists or update CSV_FILE_PATH.''])
      else (True, [Exists (Path csv_path)]))"

text \<open>
  \<^verbatim>\<open>main_async\<close>: the banner, the two validations (each returns 1 when it fails), the
  announcement, then \<^verbatim>\<open>analyze_csv\<close> inside \<^verbatim>\<open>try\<close>/\<^verbatim>\<open>except Exception\<close>.
\<close>

definition main_async :: "agent \<Rightarrow> world \<Rightarrow> config \<Rightarrow> int run" where
  "main_async query w cfg =
     (let banner = [Print rule60, Print ''CSV Analysis Agent'', Print rule60];
          (env_ok, env_events) = validate_environment w
      in if \<not> env_ok then
           \<lparr>outcome = Returns 1, after = w, events = banner @ env_events\<rparr>
         else
           (let (csv_ok, csv_events) = validate_csv_path w (CSV_FILE_PATH cfg)
            in if \<not> csv_ok then
                 \<lparr>outcome = Returns 1, after = w, events = banner @ env_events @ csv_events\<rparr>
               else
                 (let announced =
                        banner @ env_events @ csv_events
                        @ [Print (''\<newline>CSV File: '' @ CSV_FILE_PATH cfg),
                           Print (''Output: '' @ OUTPUT_PATH cfg),
                           Print (''\<newline>User Prompt:\<newline>'' @ USER_PROMPT cfg),
                           Print (''\<newline>'' @ rule60),
                           Print ''Starting analysis... (this may take a few minutes)'',
                           Print (rule60 @ ''\<newline>'')];
                      r = analyze_csv query w (CSV_FILE_PATH cfg) (USER_PROMPT cfg)
                            (OUTPUT_PATH cfg) True
                  in case outcome r of
                       Returns result \<Rightarrow>
                         \<lparr>outcome = Returns 0, after = after r,
                          events = announced @ events r
                            @ [Print (''\<newline>'' @ rule60),
                               Print ''ANALYSIS COMPLETE'',
                               Print rule60,
                               Print (''\<newline>Results saved to: '' @ OUTPUT_PATH cfg),
                               Print ''\<newline>--- Analysis Report ---\<newline>'',
                               Print result]\<rparr>
                     | Raises e \<Rightarrow>
                         if is_Exception e then
                           \<lparr>outcome = Returns 1, after = after r,
                            events = announced @ events r @ [PrintFailure e, PrintTraceback e]\<rparr>
                         else
                           \<lparr>outcome = Raises e, after = after r,
                            events = announced @ events r\<rparr>
                     | Hangs \<Rightarrow>
                         \<lparr>outcome = Hangs, after = after r,
                          events = announced @ events r\<rparr>)))"

text \<open>
  \<^verbatim>\<open>main\<close>: the first two command-line arguments replace the CSV path and the prompt; the
  value returned stands for the status \<^verbatim>\<open>sys.exit\<close> ends the process with.
\<close>

definition main :: "agent \<Rightarrow> world \<Rightarrow> string list \<Rightarrow> int run" where
  "main query w argv =
     (let cfg1 = (if 2 \<le> length argv then default_config\<lparr>CSV_FILE_PATH := argv ! 1\<rparr>
                  else default_config);
          cfg2 = (if 3 \<le> length argv then cfg1\<lparr>USER_PROMPT := argv ! 2\<rparr> else cfg1)
      in asyncio_run (\<lambda>w0. main_async query w0 cfg2) w)"

section \<open>Concrete worlds and agents\<close>

text \<open>
  A small world to run the functions in: the working directory \<^verbatim>\<open>/work\<close> holding
  \<^verbatim>\<open>data/sample_sales.csv\<close>, and an API key in the environment.
\<close>

definition demo_fs :: filesystem where
  "demo_fs =
     [[] \<mapsto> Directory,
      [''work''] \<mapsto> Directory,
      [''work'', ''data''] \<mapsto> Directory,
      [''work'', ''data'', ''sample_sales.csv''] \<mapsto> RegularFile (Text ''day,revenue'')]"

definition demo_world :: world where
  "demo_world =
     \<lparr>cwd = [''work''], fs = demo_fs, environ = [''ANTHROPIC_API_KEY'' \<mapsto> ''sk-demo'']\<rparr>"

text \<open>An agent that sends nothing and leaves the filesystem as it found it.\<close>

definition idle_agent :: agent where
  "idle_agent prompt opts f = \<lparr>items = [], ending = Completed, final_fs = f\<rparr>"

text \<open>An agent that sends one text message and writes a report at a given place.\<close>

definition writing_agent :: "path \<Rightarrow> string \<Rightarrow> agent" where
  "writing_agent loc report prompt opts f =
     \<lparr>items = [(\<lparr>is_Message = True, content = Some (ContentStr ''done'')\<rparr>, f)],
      ending = Completed,
      final_fs = f(loc \<mapsto> RegularFile (Text report))\<rparr>"

section \<open>Reading a run\<close>

text \<open>Kinds of events: the call of \<^verbatim>\<open>query\<close>, an item taken from its stream, a look at a path.\<close>

fun is_query_call :: "event \<Rightarrow> bool" where
  "is_query_call (QueryCall _ _) = True"
| "is_query_call _ = False"

fun is_received :: "event \<Rightarrow> bool" where
  "is_received (Received _) = True"
| "is_received _ = False"

fun is_read :: "event \<Rightarrow> bool" where
  "is_read (Exists _) = True"
| "is_read (ReadText _) = True"
| "is_read _ = False"

text \<open>
  One filesystem grows out of another by new directories only: every location holds what
  it held, or was empty and now holds a directory.
\<close>

definition adds_only_directories :: "filesystem \<Rightarrow> filesystem \<Rightarrow> bool" where
  "adds_only_directories f f' = (\<forall>loc. f' loc = f loc \<or> (f loc = None \<and> f' loc = Some Directory))"

text \<open>The filesystems an agent's run passes through: one per item, and the last.\<close>

definition left_by :: "agent_run \<Rightarrow> filesystem set" where
  "left_by r = insert (final_fs r) (snd ` set (items r))"

section \<open>Properties of \<^verbatim>\<open>analyze_csv\<close>\<close>

subsection \<open>The message loop emits nothing but what it receives and prints\<close>

lemma print_blocks_no_end: "StreamEnd \<notin> set (print_blocks bs)"
proof (induction bs)
  case Nil
  show ?case by simp
next
  case (Cons b bs)
  then show ?case by (cases b) simp_all
qed

lemma show_message_cases:
  "show_message verbose m = [] \<or>
   (\<exists>bs. show_message verbose m = print_blocks bs) \<or>
   (\<exists>s. show_message verbose m = [Print (''[Agent] '' @ take 200 s @ ''...'')])"
proof (cases "is_Message m \<and> verbose")
  case False
  then have "show_message verbose m = []"
    unfolding show_message_def by auto
  then show ?thesis by simp
next
  case True
  show ?thesis
  proof (cases "content m")
    case None
    with True have "show_message verbose m = []"
      unfolding show_message_def by simp
    then show ?thesis by simp
  next
    case (Some c)
    with True show ?thesis
      unfolding show_message_def by (cases c) auto
  qed
qed

lemma show_message_no_end: "StreamEnd \<notin> set (show_message verbose m)"
  using show_message_cases [of verbose m] print_blocks_no_end by auto

lemma consume_no_end: "StreamEnd \<notin> set (consume verbose xs)"
proof (induction xs)
  case Nil
  show ?case by simp
next
  case (Cons x xs)
  then show ?case
    by (cases x) (simp add: show_message_no_end)
qed

subsection \<open>A drained stream\<close>

text \<open>
  \<open>StreamEnd\<close> is among the events of a call exactly when the directory was made and the
  stream of the query ended by itself; then the call looks for the report in the
  filesystem the agent left.
\<close>

lemma analyze_csv_drained:
  assumes "StreamEnd \<in> set (events (analyze_csv query w csv_path user_prompt output_path verbose))"
  obtains fs1 where
    "mkdir True True (fs w) (cwd w) (parent (Path output_path)) = (None, fs1)"
    "ending (query (full_prompt (str_abs (resolve (cwd w) (Path csv_path))) user_prompt
                      (str_abs (resolve (cwd w) (Path output_path)))) agent_options fs1) = Completed"
  using assms
  by (auto simp: analyze_csv_def Let_def consume_no_end
           split: prod.splits option.splits stream_end.splits)

lemma analyze_csv_completed:
  assumes m: "mkdir True True (fs w) (cwd w) (parent (Path output_path)) = (None, fs1)"
      and e: "ending (query (full_prompt (str_abs (resolve (cwd w) (Path csv_path))) user_prompt
                      (str_abs (resolve (cwd w) (Path output_path)))) agent_options fs1) = Completed"
  defines "F \<equiv> final_fs (query (full_prompt (str_abs (resolve (cwd w) (Path csv_path))) user_prompt
                      (str_abs (resolve (cwd w) (Path output_path)))) agent_options fs1)"
  shows "after (analyze_csv query w csv_path user_prompt output_path verbose) = w\<lparr>fs := F\<rparr>"
    and "outcome (analyze_csv query w csv_path user_prompt output_path verbose) =
           (if exists F (cwd w) (Path output_path) then
              (case read_text F (cwd w) (Path output_path) of
                 Inl x \<Rightarrow> Raises x | Inr t \<Rightarrow> Returns t)
            else Returns ''Analysis completed but no report file was generated. Check agent output above.'')"
proof -
  show "after (analyze_csv query w csv_path user_prompt output_path verbose) = w\<lparr>fs := F\<rparr>"
    unfolding analyze_csv_def F_def Let_def
    by (cases "read_text F (cwd w) (Path output_path)") (simp_all add: m e F_def)
  show "outcome (analyze_csv query w csv_path user_prompt output_path verbose) =
           (if exists F (cwd w) (Path output_path) then
              (case read_text F (cwd w) (Path output_path) of
                 Inl x \<Rightarrow> Raises x | Inr t \<Rightarrow> Returns t)
            else Returns ''Analysis completed but no report file was generated. Check agent output above.'')"
    unfolding analyze_csv_def F_def Let_def
    by (cases "read_text F (cwd w) (Path output_path)") (simp_all add: m e F_def)
qed

subsection \<open>The report that is there is the value returned\<close>



subsection \<open>No report: the fallback sentence\<close>



subsection \<open>Between the two: something at the path that is not a text file\<close>

text \<open>
  When \<^verbatim>\<open>output_path\<close> names a directory, or a file that does not decode, \<^verbatim>\<open>Path.exists()\<close>
  is true and \<^verbatim>\<open>read_text()\<close> raises; the call then raises instead of returning. Neither of
  the two claims above is about this case.
\<close>

lemma analyze_csv_directory_at_output_path:
  "outcome (analyze_csv idle_agent demo_world ''data/sample_sales.csv'' ''q'' ''data'' False)
   = Raises IsADirectoryError"
  by code_simp

lemma analyze_csv_undecodable_report:
  "outcome (analyze_csv
      (\<lambda>prompt opts f. \<lparr>items = [], ending = Completed,
                          final_fs = f([''work'', ''report.bin''] \<mapsto> RegularFile Undecodable)\<rparr>)
      demo_world ''data/sample_sales.csv'' ''q'' ''report.bin'' False)
   = Raises UnicodeDecodeError"
  by code_simp

section \<open>Properties of the entry point\<close>

text \<open>
  Claim C3. Whenever the environment variable \<^verbatim>\<open>ANTHROPIC_API_KEY\<close> is unset or set to the
  empty string, \<^verbatim>\<open>main_async\<close> returns exit code 1, and \<^verbatim>\<open>query\<close> is not called: no call of
  it is among the events of the run, whatever the agent, the filesystem and the
  configuration are. The world is left as it was.
\<close>

theorem main_async_missing_key:
  assumes "environ w ''ANTHROPIC_API_KEY'' = None \<or> environ w ''ANTHROPIC_API_KEY'' = Some []"
  shows "outcome (main_async query w cfg) = Returns 1
         \<and> (\<forall>prompt opts. QueryCall prompt opts \<notin> set (events (main_async query w cfg)))
         \<and> after (main_async query w cfg) = w"
proof -
  from assms have "fst (validate_environment w) = False"
    by (auto simp: validate_environment_def)
  then obtain es where v: "validate_environment w = (False, es)"
    and es: "es = [EnvGet ''ANTHROPIC_API_KEY'',
          Print ''ERROR: ANTHROPIC_API_KEY environment variable not set.'',
          Print (''Please set it with: export ANTHROPIC_API_KEY='' @ [CHR 0x27]
                 @ ''your-api-key'' @ [CHR 0x27])]"
    by (auto simp: validate_environment_def split: if_splits)
  have "main_async query w cfg =
          \<lparr>outcome = Returns 1, after = w,
           events = [Print rule60, Print ''CSV Analysis Agent'', Print rule60] @ es\<rparr>"
    by (simp add: main_async_def v)
  then show ?thesis
    by (simp add: es)
qed

theorem main_async_missing_key_witness:
  "outcome (main_async idle_agent (demo_world\<lparr>environ := Map.empty\<rparr>) default_config) = Returns 1
   \<and> (\<forall>prompt opts. QueryCall prompt opts
         \<notin> set (events (main_async idle_agent (demo_world\<lparr>environ := Map.empty\<rparr>) default_config)))
   \<and> after (main_async idle_agent (demo_world\<lparr>environ := Map.empty\<rparr>) default_config)
       = demo_world\<lparr>environ := Map.empty\<rparr>"
proof -
  have unset:
    "environ (demo_world\<lparr>environ := Map.empty\<rparr>) ''ANTHROPIC_API_KEY'' = None
     \<or> environ (demo_world\<lparr>environ := Map.empty\<rparr>) ''ANTHROPIC_API_KEY'' = Some []"
    by simp
  show ?thesis
    by (rule main_async_missing_key [OF unset])
qed



section \<open>What a run of \<^verbatim>\<open>analyze_csv\<close> consists of\<close>

lemma print_blocks_prints:
  "filter is_query_call (print_blocks bs) = [] \<and> filter is_received (print_blocks bs) = []
   \<and> filter is_read (print_blocks bs) = []"
proof (induction bs)
  case Nil
  show ?case by simp
next
  case (Cons b bs)
  then show ?case by (cases b) simp_all
qed

lemma show_message_prints:
  "filter is_query_call (show_message verbose m) = [] \<and> filter is_received (show_message verbose m) = []
   \<and> filter is_read (show_message verbose m) = []"
  using show_message_cases [of verbose m] print_blocks_prints by auto

lemma consume_events:
  "filter is_query_call (consume verbose xs) = []
   \<and> filter is_received (consume verbose xs) = map (Received \<circ> fst) xs
   \<and> filter is_read (consume verbose xs) = []"
proof (induction xs)
  case Nil
  show ?case by simp
next
  case (Cons x xs)
  then show ?case
    by (cases x) (simp add: show_message_prints)
qed

lemma analyze_csv_query_calls:
  "filter is_query_call (events (analyze_csv query w csv_path user_prompt output_path verbose)) =
     (case mkdir True True (fs w) (cwd w) (parent (Path output_path)) of
        (Some e, fs1) \<Rightarrow> []
      | (None, fs1) \<Rightarrow>
          [QueryCall (full_prompt (str_abs (resolve (cwd w) (Path csv_path))) user_prompt
                        (str_abs (resolve (cwd w) (Path output_path)))) agent_options])"
  by (cases verbose)
     (auto simp: analyze_csv_def Let_def consume_events
           split: prod.splits option.splits stream_end.splits sum.splits)

lemma analyze_csv_received:
  assumes "mkdir True True (fs w) (cwd w) (parent (Path output_path)) = (None, fs1)"
  shows "filter is_received (events (analyze_csv query w csv_path user_prompt output_path verbose)) =
     map (Received \<circ> fst)
       (items (query (full_prompt (str_abs (resolve (cwd w) (Path csv_path))) user_prompt
                        (str_abs (resolve (cwd w) (Path output_path)))) agent_options fs1))"
  using assms
  by (cases verbose)
     (auto simp: analyze_csv_def Let_def consume_events
           split: prod.splits option.splits stream_end.splits sum.splits)

lemma analyze_csv_events:
  assumes "mkdir True True (fs w) (cwd w) (parent (Path output_path)) = (None, fs1)"
  shows "\<exists>tail. events (analyze_csv query w csv_path user_prompt output_path verbose) =
           [Mkdir (parent (Path output_path)), Resolve (Path csv_path), Resolve (Path output_path)]
           @ (if verbose
              then [Print (''[Agent] Starting analysis of: '' @ csv_path),
                    Print (''[Agent] User prompt: '' @ take 100 user_prompt @ ''...'')]
              else [])
           @ [QueryCall (full_prompt (str_abs (resolve (cwd w) (Path csv_path))) user_prompt
                        (str_abs (resolve (cwd w) (Path output_path)))) agent_options]
           @ consume verbose
               (items (query (full_prompt (str_abs (resolve (cwd w) (Path csv_path))) user_prompt
                        (str_abs (resolve (cwd w) (Path output_path)))) agent_options fs1))
           @ tail
         \<and> (tail = [] \<or> (\<exists>rest. tail = StreamEnd # rest))"
  using assms
  by (cases verbose)
     (auto simp: analyze_csv_def Let_def split: stream_end.splits sum.splits)

lemma before_drain:
  assumes "StreamEnd \<notin> set xs" and "filter is_read xs = []"
      and "tail = [] \<or> (\<exists>rest. tail = StreamEnd # rest)"
  shows "filter is_read (takeWhile (\<lambda>e. e \<noteq> StreamEnd) (xs @ tail)) = []"
proof -
  from assms(1) have "takeWhile (\<lambda>e. e \<noteq> StreamEnd) (xs @ tail)
      = xs @ takeWhile (\<lambda>e. e \<noteq> StreamEnd) tail"
    by (intro takeWhile_append2) auto
  moreover from assms(3) have "takeWhile (\<lambda>e. e \<noteq> StreamEnd) tail = []"
    by auto
  ultimately show ?thesis
    using assms(2) by simp
qed

subsection \<open>The prompt and the options handed to \<^verbatim>\<open>query\<close>\<close>

text \<open>
  Claim C9. A call of \<^verbatim>\<open>analyze_csv\<close> that gets past making the output directory calls
  \<^verbatim>\<open>query\<close> exactly once, with the prompt built from the template, the two resolved
  paths and the user's text, unchanged, and with \<open>agent_options\<close>; the items it consumes are
  those of that very call. (A call that fails before does not call \<^verbatim>\<open>query\<close> at all.) The
  options are one constant: the same system prompt, the same five tool names, the same
  permission mode and the same limit of 30 turns, whatever the inputs are.
\<close>

theorem analyze_csv_forwards_prompt:
  "filter is_query_call (events (analyze_csv query w csv_path user_prompt output_path verbose)) =
     (if fst (mkdir True True (fs w) (cwd w) (parent (Path output_path))) = None
      then [QueryCall (full_prompt (str_abs (resolve (cwd w) (Path csv_path))) user_prompt
                         (str_abs (resolve (cwd w) (Path output_path)))) agent_options]
      else [])
   \<and> (fst (mkdir True True (fs w) (cwd w) (parent (Path output_path))) = None \<longrightarrow>
        filter is_received (events (analyze_csv query w csv_path user_prompt output_path verbose)) =
          map (Received \<circ> fst)
            (items (query (full_prompt (str_abs (resolve (cwd w) (Path csv_path))) user_prompt
                             (str_abs (resolve (cwd w) (Path output_path)))) agent_options
                      (snd (mkdir True True (fs w) (cwd w) (parent (Path output_path)))))))
   \<and> agent_options =
        \<lparr>system_prompt = DATA_ANALYSIS_SYSTEM_PROMPT,
         allowed_tools = [''Bash'', ''Read'', ''Write'', ''Glob'', ''Grep''],
         permission_mode = ''acceptEdits'',
         max_turns = 30\<rparr>"
proof (cases "mkdir True True (fs w) (cwd w) (parent (Path output_path))")
  case (Pair failure fs1)
  show ?thesis
  proof (cases failure)
    case (Some e)
    with Pair show ?thesis
      by (simp add: analyze_csv_query_calls agent_options_def)
  next
    case None
    with Pair have m: "mkdir True True (fs w) (cwd w) (parent (Path output_path)) = (None, fs1)"
      by simp
    show ?thesis
      by (simp add: analyze_csv_query_calls analyze_csv_received [where query = query, OF m] m
            agent_options_def)
  qed
qed

theorem analyze_csv_forwards_prompt_witness:
  "filter is_query_call
     (events (analyze_csv idle_agent demo_world ''data/sample_sales.csv'' ''Which day sold most?''
                ''output/analysis_report.txt'' True))
   = [QueryCall (full_prompt ''/work/data/sample_sales.csv'' ''Which day sold most?''
                   ''/work/output/analysis_report.txt'') agent_options]"
proof -
  have made:
    "fst (mkdir True True (fs demo_world) (cwd demo_world)
            (parent (Path ''output/analysis_report.txt''))) = None"
    by code_simp
  have csv: "str_abs (resolve (cwd demo_world) (Path ''data/sample_sales.csv''))
             = ''/work/data/sample_sales.csv''"
    by code_simp
  have out: "str_abs (resolve (cwd demo_world) (Path ''output/analysis_report.txt''))
             = ''/work/output/analysis_report.txt''"
    by code_simp
  from analyze_csv_forwards_prompt
         [of idle_agent demo_world "''data/sample_sales.csv''" "''Which day sold most?''"
             "''output/analysis_report.txt''" True]
  show ?thesis
    unfolding made csv out by simp
qed

subsection \<open>Nothing is looked up before the stream is drained\<close>

text \<open>
  Claim C8. In every run of \<^verbatim>\<open>analyze_csv\<close>, the events that come before the end of the
  \<^verbatim>\<open>async for\<close> loop (all events, when the loop never ends normally) contain no existence
  check and no read of any path, so none of \<^verbatim>\<open>output_path\<close>: the report is looked for and
  read only after the stream is fully drained. (\<^verbatim>\<open>resolve()\<close> and \<^verbatim>\<open>mkdir\<close> come before; they
  are events of their own kinds, neither a read nor the existence check of the report.)
\<close>

theorem analyze_csv_reads_after_drain:
  "filter is_read (takeWhile (\<lambda>e. e \<noteq> StreamEnd)
      (events (analyze_csv query w csv_path user_prompt output_path verbose))) = []"
proof (cases "mkdir True True (fs w) (cwd w) (parent (Path output_path))")
  case (Pair failure fs1)
  show ?thesis
  proof (cases failure)
    case (Some e)
    with Pair show ?thesis
      by (simp add: analyze_csv_def)
  next
    case None
    with Pair have m: "mkdir True True (fs w) (cwd w) (parent (Path output_path)) = (None, fs1)"
      by simp
    from analyze_csv_events [where query = query, OF m, of csv_path user_prompt verbose]
    obtain tail where
      ev: "events (analyze_csv query w csv_path user_prompt output_path verbose) =
           ([Mkdir (parent (Path output_path)), Resolve (Path csv_path), Resolve (Path output_path)]
           @ (if verbose
              then [Print (''[Agent] Starting analysis of: '' @ csv_path),
                    Print (''[Agent] User prompt: '' @ take 100 user_prompt @ ''...'')]
              else [])
           @ [QueryCall (full_prompt (str_abs (resolve (cwd w) (Path csv_path))) user_prompt
                        (str_abs (resolve (cwd w) (Path output_path)))) agent_options]
           @ consume verbose
               (items (query (full_prompt (str_abs (resolve (cwd w) (Path csv_path))) user_prompt
                        (str_abs (resolve (cwd w) (Path output_path)))) agent_options fs1)))
           @ tail"
      and tl: "tail = [] \<or> (\<exists>rest. tail = StreamEnd # rest)"
      by auto
    show ?thesis
      unfolding ev
      by (rule before_drain [OF _ _ tl]; cases verbose)
         (simp_all add: consume_no_end consume_events)
  qed
qed

theorem analyze_csv_reads_after_drain_witness:
  "filter is_read (takeWhile (\<lambda>e. e \<noteq> StreamEnd)
      (events (analyze_csv
         (writing_agent [''work'', ''output'', ''analysis_report.txt''] ''REPORT'')
         demo_world ''data/sample_sales.csv'' ''q'' ''output/analysis_report.txt'' True))) = []
   \<and> filter is_read
      (events (analyze_csv
         (writing_agent [''work'', ''output'', ''analysis_report.txt''] ''REPORT'')
         demo_world ''data/sample_sales.csv'' ''q'' ''output/analysis_report.txt'' True))
     = [Exists (Path ''output/analysis_report.txt''), ReadText (Path ''output/analysis_report.txt'')]"
proof -
  have later: "filter is_read
      (events (analyze_csv
         (writing_agent [''work'', ''output'', ''analysis_report.txt''] ''REPORT'')
         demo_world ''data/sample_sales.csv'' ''q'' ''output/analysis_report.txt'' True))
     = [Exists (Path ''output/analysis_report.txt''), ReadText (Path ''output/analysis_report.txt'')]"
    by code_simp
  show ?thesis
    by (rule conjI [OF analyze_csv_reads_after_drain later])
qed

section \<open>The synchronous wrapper\<close>



section \<open>Properties of \<^verbatim>\<open>analyze_csv_streaming\<close>\<close>

lemma relay_no_end: "StreamEnd \<notin> set (snd (relay cb xs))"
proof (induction xs)
  case Nil
  show ?case by simp
next
  case (Cons x xs)
  obtain m f where x: "x = (m, f)" by (cases x)
  obtain r es where r: "relay cb xs = (r, es)" by (cases "relay cb xs")
  with Cons have "StreamEnd \<notin> set es" by simp
  with x r show ?case
    by (auto split: option.splits)
qed

lemma analyze_csv_streaming_drained:
  assumes "StreamEnd \<in> set (events (analyze_csv_streaming query w csv_path user_prompt output_path cb))"
  obtains fs1 es where
    "mkdir True True (fs w) (cwd w) (parent (Path output_path)) = (None, fs1)"
    "relay cb (items (query (full_prompt_streaming (str_abs (resolve (cwd w) (Path csv_path))) user_prompt
                      (str_abs (resolve (cwd w) (Path output_path)))) agent_options fs1)) = (None, es)"
    "ending (query (full_prompt_streaming (str_abs (resolve (cwd w) (Path csv_path))) user_prompt
                      (str_abs (resolve (cwd w) (Path output_path)))) agent_options fs1) = Completed"
proof -
  obtain failure fs1 where m: "mkdir True True (fs w) (cwd w) (parent (Path output_path)) = (failure, fs1)"
    by (cases "mkdir True True (fs w) (cwd w) (parent (Path output_path))")
  define r where "r = query (full_prompt_streaming (str_abs (resolve (cwd w) (Path csv_path))) user_prompt
                      (str_abs (resolve (cwd w) (Path output_path)))) agent_options fs1"
  obtain x es where l: "relay cb (items r) = (x, es)"
    by (cases "relay cb (items r)")
  from relay_no_end [of cb "items r"] l have noend: "StreamEnd \<notin> set es"
    by simp
  from assms m have f: "failure = None"
    by (cases failure) (simp_all add: analyze_csv_streaming_def)
  from assms m f l noend have x: "x = None"
    by (cases x) (auto simp: analyze_csv_streaming_def Let_def r_def)
  from assms m f l x noend have "ending r = Completed"
    by (cases "ending r") (auto simp: analyze_csv_streaming_def Let_def r_def)
  with m f l x show thesis
    using that unfolding r_def by blast
qed

lemma analyze_csv_streaming_completed:
  assumes m: "mkdir True True (fs w) (cwd w) (parent (Path output_path)) = (None, fs1)"
      and l: "relay cb (items (query (full_prompt_streaming (str_abs (resolve (cwd w) (Path csv_path))) user_prompt
                      (str_abs (resolve (cwd w) (Path output_path)))) agent_options fs1)) = (None, es)"
      and e: "ending (query (full_prompt_streaming (str_abs (resolve (cwd w) (Path csv_path))) user_prompt
                      (str_abs (resolve (cwd w) (Path output_path)))) agent_options fs1) = Completed"
  defines "F \<equiv> final_fs (query (full_prompt_streaming (str_abs (resolve (cwd w) (Path csv_path))) user_prompt
                      (str_abs (resolve (cwd w) (Path output_path)))) agent_options fs1)"
  shows "after (analyze_csv_streaming query w csv_path user_prompt output_path cb) = w\<lparr>fs := F\<rparr>
       \<and> outcome (analyze_csv_streaming query w csv_path user_prompt output_path cb) =
           (if exists F (cwd w) (Path output_path) then
              (case read_text F (cwd w) (Path output_path) of
                 Inl x \<Rightarrow> Raises x | Inr t \<Rightarrow> Returns t)
            else Returns ''Analysis complete. Check the output file.'')"
  unfolding analyze_csv_streaming_def F_def Let_def
  by (cases "read_text F (cwd w) (Path output_path)") (simp_all add: m l e F_def)

subsection \<open>The two fallback sentences\<close>

text \<open>
  Claim C10. Run both functions on the same inputs, from the same world, against the same
  agent, and let each drain its stream and find nothing at \<^verbatim>\<open>output_path\<close>. Then
  \<^verbatim>\<open>analyze_csv\<close> returns "Analysis completed but no report file was generated. Check agent
  output above." and \<^verbatim>\<open>analyze_csv_streaming\<close> returns "Analysis complete. Check the output
  file.", so the two results are unequal.
\<close>

theorem fallbacks_differ:
  assumes "StreamEnd \<in> set (events (analyze_csv query w csv_path user_prompt output_path verbose))"
      and "\<not> exists (fs (after (analyze_csv query w csv_path user_prompt output_path verbose)))
             (cwd w) (Path output_path)"
      and "StreamEnd \<in> set (events (analyze_csv_streaming query w csv_path user_prompt output_path cb))"
      and "\<not> exists (fs (after (analyze_csv_streaming query w csv_path user_prompt output_path cb)))
             (cwd w) (Path output_path)"
    shows "outcome (analyze_csv query w csv_path user_prompt output_path verbose) =
             Returns ''Analysis completed but no report file was generated. Check agent output above.''
         \<and> outcome (analyze_csv_streaming query w csv_path user_prompt output_path cb) =
             Returns ''Analysis complete. Check the output file.''
         \<and> outcome (analyze_csv query w csv_path user_prompt output_path verbose) \<noteq>
             outcome (analyze_csv_streaming query w csv_path user_prompt output_path cb)"
proof -
  from assms(1) obtain fs1 where
    m: "mkdir True True (fs w) (cwd w) (parent (Path output_path)) = (None, fs1)" and
    e: "ending (query (full_prompt (str_abs (resolve (cwd w) (Path csv_path))) user_prompt
                      (str_abs (resolve (cwd w) (Path output_path)))) agent_options fs1) = Completed"
    by (rule analyze_csv_drained)
  from assms(2) have a: "outcome (analyze_csv query w csv_path user_prompt output_path verbose) =
             Returns ''Analysis completed but no report file was generated. Check agent output above.''"
    by (simp add: analyze_csv_completed [where query = query, OF m e])
  from assms(3) obtain fs2 es where
    m2: "mkdir True True (fs w) (cwd w) (parent (Path output_path)) = (None, fs2)" and
    l2: "relay cb (items (query (full_prompt_streaming (str_abs (resolve (cwd w) (Path csv_path))) user_prompt
                      (str_abs (resolve (cwd w) (Path output_path)))) agent_options fs2)) = (None, es)" and
    e2: "ending (query (full_prompt_streaming (str_abs (resolve (cwd w) (Path csv_path))) user_prompt
                      (str_abs (resolve (cwd w) (Path output_path)))) agent_options fs2) = Completed"
    by (rule analyze_csv_streaming_drained)
  from assms(4) have b: "outcome (analyze_csv_streaming query w csv_path user_prompt output_path cb) =
             Returns ''Analysis complete. Check the output file.''"
    by (simp add: analyze_csv_streaming_completed [where query = query, OF m2 l2 e2])
  from a b show ?thesis
    by simp
qed

theorem fallbacks_differ_witness:
  "outcome (analyze_csv idle_agent demo_world ''data/sample_sales.csv'' ''q''
      ''output/analysis_report.txt'' False) =
     Returns ''Analysis completed but no report file was generated. Check agent output above.''
   \<and> outcome (analyze_csv_streaming idle_agent demo_world ''data/sample_sales.csv'' ''q''
      ''output/analysis_report.txt'' None) =
     Returns ''Analysis complete. Check the output file.''
   \<and> outcome (analyze_csv idle_agent demo_world ''data/sample_sales.csv'' ''q''
      ''output/analysis_report.txt'' False) \<noteq>
     outcome (analyze_csv_streaming idle_agent demo_world ''data/sample_sales.csv'' ''q''
      ''output/analysis_report.txt'' None)"
proof -
  have drained:
    "StreamEnd \<in> set (events (analyze_csv idle_agent demo_world ''data/sample_sales.csv'' ''q''
        ''output/analysis_report.txt'' False))"
    by code_simp
  have absent:
    "\<not> exists (fs (after (analyze_csv idle_agent demo_world ''data/sample_sales.csv'' ''q''
        ''output/analysis_report.txt'' False)))
       (cwd demo_world) (Path ''output/analysis_report.txt'')"
    by code_simp
  have drained_streaming:
    "StreamEnd \<in> set (events (analyze_csv_streaming idle_agent demo_world
        ''data/sample_sales.csv'' ''q'' ''output/analysis_report.txt'' None))"
    by code_simp
  have absent_streaming:
    "\<not> exists (fs (after (analyze_csv_streaming idle_agent demo_world
        ''data/sample_sales.csv'' ''q'' ''output/analysis_report.txt'' None)))
       (cwd demo_world) (Path ''output/analysis_report.txt'')"
    by code_simp
  show ?thesis
    by (rule fallbacks_differ [OF drained absent drained_streaming absent_streaming])
qed

section \<open>What the code itself does to the filesystem\<close>

subsection \<open>\<^verbatim>\<open>mkdir\<close> adds directories and nothing else\<close>

lemma adds_only_directories_refl: "adds_only_directories f f"
  by (simp add: adds_only_directories_def)

lemma adds_only_directories_trans:
  assumes "adds_only_directories f g" and "adds_only_directories g h"
  shows "adds_only_directories f h"
  unfolding adds_only_directories_def
proof
  fix loc
  from assms have "g loc = f loc \<or> (f loc = None \<and> g loc = Some Directory)"
    and "h loc = g loc \<or> (g loc = None \<and> h loc = Some Directory)"
    by (simp_all add: adds_only_directories_def)
  then show "h loc = f loc \<or> (f loc = None \<and> h loc = Some Directory)"
    by auto
qed

lemma os_mkdir_adds:
  assumes "os_mkdir f wd p = Inr f'"
  shows "adds_only_directories f f'"
  using assms
  by (auto simp: os_mkdir_def adds_only_directories_def
           split: if_splits sum.splits option.splits node.splits)

lemma mkdir_adds: "adds_only_directories f (snd (mkdir parents exist_ok f wd p))"
proof (induction parents exist_ok f wd p rule: mkdir.induct)
  case (1 parents exist_ok f wd p)
  show ?case
  proof (cases "os_mkdir f wd p")
    case (Inr f')
    then have "mkdir parents exist_ok f wd p = (None, f')"
      by (subst mkdir.simps) simp
    with Inr show ?thesis
      by (simp add: os_mkdir_adds)
  next
    case (Inl e)
    show ?thesis
    proof (cases "e = FileNotFoundError \<and> \<not> (\<not> parents \<or> parent p = p)")
      case False
      with Inl have "snd (mkdir parents exist_ok f wd p) = f"
        by (subst mkdir.simps) auto
      then show ?thesis
        by (simp add: adds_only_directories_refl)
    next
      case True
      obtain failure f1 where up: "mkdir True True f wd (parent p) = (failure, f1)"
        by (cases "mkdir True True f wd (parent p)")
      from "1.IH"(1) [OF Inl] True have step1: "adds_only_directories f f1"
        using up by simp
      show ?thesis
      proof (cases failure)
        case (Some e')
        with Inl True up have "mkdir parents exist_ok f wd p = (Some e', f1)"
          by (subst mkdir.simps) simp
        with step1 show ?thesis
          by simp
      next
        case None
        from "1.IH"(2) [OF Inl _ _ up [symmetric, unfolded None]] True
        have "adds_only_directories f1 (snd (mkdir False exist_ok f1 wd p))"
          by simp
        with step1 have "adds_only_directories f (snd (mkdir False exist_ok f1 wd p))"
          by (rule adds_only_directories_trans)
        moreover from Inl True up None
        have "mkdir parents exist_ok f wd p = mkdir False exist_ok f1 wd p"
          by (subst mkdir.simps) simp
        ultimately show ?thesis
          by simp
      qed
    qed
  qed
qed

subsection \<open>The filesystem a call leaves\<close>

lemma analyze_csv_leaves:
  "fs (after (analyze_csv query w csv_path user_prompt output_path verbose)) =
     (if fst (mkdir True True (fs w) (cwd w) (parent (Path output_path))) = None
      then final_fs (query (full_prompt (str_abs (resolve (cwd w) (Path csv_path))) user_prompt
                              (str_abs (resolve (cwd w) (Path output_path)))) agent_options
                       (snd (mkdir True True (fs w) (cwd w) (parent (Path output_path)))))
      else snd (mkdir True True (fs w) (cwd w) (parent (Path output_path))))"
  by (auto simp: analyze_csv_def Let_def
           split: prod.splits option.splits stream_end.splits sum.splits)

lemma relay_raise_snapshot:
  "relay cb xs = (Some (e, f), es) \<Longrightarrow> f \<in> snd ` set xs"
proof (induction xs arbitrary: es)
  case Nil
  then show ?case by simp
next
  case (Cons x xs)
  obtain m g where x: "x = (m, g)" by (cases x)
  obtain r es' where r: "relay cb xs = (r, es')" by (cases "relay cb xs")
  show ?case
  proof (cases "r = Some (e, f)")
    case True
    with Cons.IH r have "f \<in> snd ` set xs" by simp
    then show ?thesis by simp
  next
    case False
    with Cons.prems x r have "f = g"
      by (auto split: option.splits if_splits)
    with x show ?thesis by simp
  qed
qed

lemma analyze_csv_streaming_leaves:
  "fs (after (analyze_csv_streaming query w csv_path user_prompt output_path cb)) \<in>
     (if fst (mkdir True True (fs w) (cwd w) (parent (Path output_path))) = None
      then left_by (query (full_prompt_streaming (str_abs (resolve (cwd w) (Path csv_path))) user_prompt
                              (str_abs (resolve (cwd w) (Path output_path)))) agent_options
                       (snd (mkdir True True (fs w) (cwd w) (parent (Path output_path)))))
      else {snd (mkdir True True (fs w) (cwd w) (parent (Path output_path)))})"
proof (cases "mkdir True True (fs w) (cwd w) (parent (Path output_path))")
  case (Pair failure fs1)
  show ?thesis
  proof (cases failure)
    case (Some e)
    with Pair show ?thesis
      by (simp add: analyze_csv_streaming_def)
  next
    case None
    define r where "r = query (full_prompt_streaming (str_abs (resolve (cwd w) (Path csv_path))) user_prompt
                              (str_abs (resolve (cwd w) (Path output_path)))) agent_options fs1"
    obtain x es where l: "relay cb (items r) = (x, es)"
      by (cases "relay cb (items r)")
    show ?thesis
    proof (cases x)
      case (Some raised)
      obtain e f where raised: "raised = (e, f)" by (cases raised)
      with l Some have "f \<in> snd ` set (items r)"
        by (auto dest: relay_raise_snapshot)
      moreover from Pair None l Some raised
      have "fs (after (analyze_csv_streaming query w csv_path user_prompt output_path cb)) = f"
        by (simp add: analyze_csv_streaming_def Let_def r_def)
      ultimately show ?thesis
        using Pair None by (simp add: left_by_def r_def)
    next
      case None2: None
      from Pair None l None2
      have "fs (after (analyze_csv_streaming query w csv_path user_prompt output_path cb)) = final_fs r"
        by (cases "ending r"; cases "read_text (final_fs r) (cwd w) (Path output_path)")
           (simp_all add: analyze_csv_streaming_def Let_def r_def)
      then show ?thesis
        using Pair None by (simp add: left_by_def r_def)
    qed
  qed
qed

lemma new_files_are_not_ours:
  assumes "adds_only_directories f made" and "g loc = Some (RegularFile d)"
  shows "f loc = Some (RegularFile d) \<or> g loc \<noteq> made loc"
proof (cases "g loc = made loc")
  case False
  then show ?thesis by simp
next
  case True
  from assms(1) have "made loc = f loc \<or> (f loc = None \<and> made loc = Some Directory)"
    by (simp add: adds_only_directories_def)
  with True assms(2) show ?thesis by auto
qed

subsection \<open>The code makes a directory\<close>

text \<open>
  Claim C5 says that neither function writes to the filesystem. Both start with
  \<^verbatim>\<open>Path(output_path).parent.mkdir(parents=True, exist_ok=True)\<close> (under the comment
  "Ensure output directory exists"). In the demo world there is no \<^verbatim>\<open>/work/output\<close>; the
  code's own \<^verbatim>\<open>mkdir\<close> makes it, and it is there after either call, against an agent that
  touches nothing.
\<close>

theorem no_writes_counterexample:
  "fs demo_world [''work'', ''output''] = None
   \<and> snd (mkdir True True (fs demo_world) (cwd demo_world)
             (parent (Path ''output/analysis_report.txt''))) [''work'', ''output''] = Some Directory
   \<and> fs (after (analyze_csv idle_agent demo_world ''data/sample_sales.csv'' ''q''
                  ''output/analysis_report.txt'' False)) [''work'', ''output''] = Some Directory
   \<and> fs (after (analyze_csv_streaming idle_agent demo_world ''data/sample_sales.csv'' ''q''
                  ''output/analysis_report.txt'' None)) [''work'', ''output''] = Some Directory"
  by code_simp

text \<open>
  Claim C5, amended. Neither function writes a file. The only change either makes to the
  filesystem is its first step, making the parent directory of \<^verbatim>\<open>output_path\<close> with the
  missing ancestors, which adds directories and changes nothing that exists. After
  that the filesystem is the agent's: \<^verbatim>\<open>analyze_csv\<close> leaves the one the agent's run ended
  in, \<^verbatim>\<open>analyze_csv_streaming\<close> one of those the agent's run passed through (or, when the
  \<^verbatim>\<open>mkdir\<close> fails, what that left). So a regular file found after a call was there before
  the call, or differs from what the code handed to the agent: the agent wrote it.
\<close>

theorem own_writes_are_directories:
  "(let made = mkdir True True (fs w) (cwd w) (parent (Path output_path));
        a = fs (after (analyze_csv query w csv_path user_prompt output_path verbose));
        s = fs (after (analyze_csv_streaming query w csv_path user_prompt output_path cb))
    in adds_only_directories (fs w) (snd made)
       \<and> a = (if fst made = None
               then final_fs (query (full_prompt (str_abs (resolve (cwd w) (Path csv_path)))
                                       user_prompt (str_abs (resolve (cwd w) (Path output_path))))
                                agent_options (snd made))
               else snd made)
       \<and> s \<in> (if fst made = None
               then left_by (query (full_prompt_streaming (str_abs (resolve (cwd w) (Path csv_path)))
                                      user_prompt (str_abs (resolve (cwd w) (Path output_path))))
                               agent_options (snd made))
               else {snd made})
       \<and> (\<forall>loc d. a loc = Some (RegularFile d) \<longrightarrow>
              fs w loc = Some (RegularFile d) \<or> a loc \<noteq> snd made loc)
       \<and> (\<forall>loc d. s loc = Some (RegularFile d) \<longrightarrow>
              fs w loc = Some (RegularFile d) \<or> s loc \<noteq> snd made loc))"
  unfolding Let_def
proof (intro conjI allI impI)
  show "adds_only_directories (fs w)
          (snd (mkdir True True (fs w) (cwd w) (parent (Path output_path))))"
    by (rule mkdir_adds)
  show "fs (after (analyze_csv query w csv_path user_prompt output_path verbose)) =
     (if fst (mkdir True True (fs w) (cwd w) (parent (Path output_path))) = None
      then final_fs (query (full_prompt (str_abs (resolve (cwd w) (Path csv_path))) user_prompt
                              (str_abs (resolve (cwd w) (Path output_path)))) agent_options
                       (snd (mkdir True True (fs w) (cwd w) (parent (Path output_path)))))
      else snd (mkdir True True (fs w) (cwd w) (parent (Path output_path))))"
    by (rule analyze_csv_leaves)
  show "fs (after (analyze_csv_streaming query w csv_path user_prompt output_path cb)) \<in>
     (if fst (mkdir True True (fs w) (cwd w) (parent (Path output_path))) = None
      then left_by (query (full_prompt_streaming (str_abs (resolve (cwd w) (Path csv_path))) user_prompt
                              (str_abs (resolve (cwd w) (Path output_path)))) agent_options
                       (snd (mkdir True True (fs w) (cwd w) (parent (Path output_path)))))
      else {snd (mkdir True True (fs w) (cwd w) (parent (Path output_path)))})"
    by (rule analyze_csv_streaming_leaves)
  show "fs w loc = Some (RegularFile d) \<or>
        fs (after (analyze_csv query w csv_path user_prompt output_path verbose)) loc \<noteq>
        snd (mkdir True True (fs w) (cwd w) (parent (Path output_path))) loc"
    if "fs (after (analyze_csv query w csv_path user_prompt output_path verbose)) loc =
        Some (RegularFile d)" for loc d
    using mkdir_adds that by (rule new_files_are_not_ours)
  show "fs w loc = Some (RegularFile d) \<or>
        fs (after (analyze_csv_streaming query w csv_path user_prompt output_path cb)) loc \<noteq>
        snd (mkdir True True (fs w) (cwd w) (parent (Path output_path))) loc"
    if "fs (after (analyze_csv_streaming query w csv_path user_prompt output_path cb)) loc =
        Some (RegularFile d)" for loc d
    using mkdir_adds that by (rule new_files_are_not_ours)
qed

theorem own_writes_are_directories_witness:
  "fs (after (analyze_csv
        (writing_agent [''work'', ''output'', ''analysis_report.txt''] ''REPORT'')
        demo_world ''data/sample_sales.csv'' ''q'' ''output/analysis_report.txt'' False))
      [''work'', ''output'', ''analysis_report.txt'']
     \<noteq> snd (mkdir True True (fs demo_world) (cwd demo_world)
              (parent (Path ''output/analysis_report.txt'')))
         [''work'', ''output'', ''analysis_report.txt'']"
proof -
  have written:
    "fs (after (analyze_csv
        (writing_agent [''work'', ''output'', ''analysis_report.txt''] ''REPORT'')
        demo_world ''data/sample_sales.csv'' ''q'' ''output/analysis_report.txt'' False))
      [''work'', ''output'', ''analysis_report.txt''] = Some (RegularFile (Text ''REPORT''))"
    by code_simp
  have before: "fs demo_world [''work'', ''output'', ''analysis_report.txt'']
                \<noteq> Some (RegularFile (Text ''REPORT''))"
    by code_simp
  from own_writes_are_directories
         [of demo_world "''output/analysis_report.txt''"
             "writing_agent [''work'', ''output'', ''analysis_report.txt''] ''REPORT''"
             "''data/sample_sales.csv''" "''q''" False None]
  have "\<forall>loc d. fs (after (analyze_csv
        (writing_agent [''work'', ''output'', ''analysis_report.txt''] ''REPORT'')
        demo_world ''data/sample_sales.csv'' ''q'' ''output/analysis_report.txt'' False)) loc
          = Some (RegularFile d) \<longrightarrow>
        fs demo_world loc = Some (RegularFile d) \<or>
        fs (after (analyze_csv
        (writing_agent [''work'', ''output'', ''analysis_report.txt''] ''REPORT'')
        demo_world ''data/sample_sales.csv'' ''q'' ''output/analysis_report.txt'' False)) loc
          \<noteq> snd (mkdir True True (fs demo_world) (cwd demo_world)
                    (parent (Path ''output/analysis_report.txt''))) loc"
    unfolding Let_def by blast
  with written before show ?thesis
    by blast
qed

section \<open>Resolved paths\<close>

subsection \<open>Splitting and joining at slashes\<close>












subsection \<open>The paths in the prompt\<close>




end
